theory Spec2Isabelle
  imports Main "HOL-Library.Word"
begin

unbundle bit_operations_syntax

section \<open>Element: the graph node (class GraphNode)\<close>

text \<open>
  A shallow embedding of the inline member functions of \<^verbatim>\<open>Element::GraphNode\<close>: the
  latency, gain, metering, key-range, transpose, MIDI-channel and capability accessors.
  A member function that mutates the node takes the node and returns the updated node.
\<close>

subsection \<open>Data model\<close>

text \<open>
  \<^verbatim>\<open>float\<close> is the 32-bit IEEE 754 binary format: one sign bit, eight exponent bits,
  twenty-three fraction bits. The node only stores, copies and compares floats, so a value
  is modelled by its bit pattern and the comparison operators by their IEEE 754 meaning
  on bit patterns.
\<close>

type_synonym float = "32 word"

definition isNaN :: "float \<Rightarrow> bool" where
  \<comment> \<open>exponent all ones, fraction not zero\<close>
  "isNaN f = ((f AND 0x7F800000) = 0x7F800000 \<and> (f AND 0x007FFFFF) \<noteq> 0)"

definition isZero :: "float \<Rightarrow> bool" where
  \<comment> \<open>\<open>+0.0\<close> or \<open>-0.0\<close>: everything but the sign bit is zero\<close>
  "isZero f = ((f AND 0x7FFFFFFF) = 0)"

definition float_eq :: "float \<Rightarrow> float \<Rightarrow> bool" where
  \<comment> \<open>C++ \<open>a == b\<close> on floats: false when either is NaN, true for \<open>+0.0 == -0.0\<close>\<close>
  "float_eq a b = (\<not> isNaN a \<and> \<not> isNaN b \<and> (a = b \<or> (isZero a \<and> isZero b)))"

definition float_ne :: "float \<Rightarrow> float \<Rightarrow> bool" where
  \<comment> \<open>C++ \<open>a != b\<close> on floats\<close>
  "float_ne a b = (\<not> float_eq a b)"

text \<open>
  The classes a processing unit can be cast to. \<^verbatim>\<open>processor<T>()\<close> is a template over
  every class \<open>T\<close>; \<open>OtherClass\<close> stands for the classes the header does not name.
\<close>

datatype class_id = AudioProcessorClass | AudioPluginInstanceClass | OtherClass nat

text \<open>
  An object behind an \<^verbatim>\<open>AudioProcessor*\<close>: its identity and the classes its dynamic type
  is or derives from, which is what \<^verbatim>\<open>dynamic_cast\<close> consults.
\<close>

record AudioProcessor =
  objectId :: nat
  dynamicClasses :: "class_id list"

text \<open>
  The data members of \<^verbatim>\<open>GraphNode\<close> that the inline member functions read or write.
  An \<^verbatim>\<open>Atomic<T>\<close> member is the value it holds; \<^verbatim>\<open>int\<close> members are integers on
  which the header performs no arithmetic, only stores and comparisons; the two
  \<^verbatim>\<open>OwnedArray<AtomicValue<float>>\<close> members are the lists of the values held.
  \<open>audioProcessor\<close> is what the virtual \<^verbatim>\<open>getAudioProcessor()\<close> of the node's dynamic
  class returns: \<^verbatim>\<open>GraphNode\<close>'s own body returns \<^verbatim>\<open>nullptr\<close> (\<open>None\<close>).
\<close>

type_synonym MidiChannels = "128 word"

record GraphNode =
  nodeId :: nat
  audioProcessor :: "AudioProcessor option"
  isPrepared :: bool
  enabled :: int
  latencySamples :: int
  gain :: float
  lastGain :: float
  inputGain :: float
  lastInputGain :: float
  inRMS :: "float list"
  outRMS :: "float list"
  keyRangeLow :: int
  keyRangeHigh :: int
  transposeOffset :: int
  midiChannels :: MidiChannels

text \<open>
  The default member initialisers of the class:
  \<^verbatim>\<open>isPrepared = false\<close>, \<^verbatim>\<open>enabled { 1 }\<close>, \<^verbatim>\<open>latencySamples = 0\<close>,
  \<^verbatim>\<open>keyRangeLow { 0 }\<close>, \<^verbatim>\<open>keyRangeHigh { 127 }\<close>, \<^verbatim>\<open>transposeOffset { 0 }\<close>.
\<close>

definition member_defaults :: "GraphNode \<Rightarrow> bool" where
  "member_defaults s =
     (\<not> isPrepared s \<and> enabled s = 1 \<and> latencySamples s = 0 \<and>
      keyRangeLow s = 0 \<and> keyRangeHigh s = 127 \<and> transposeOffset s = 0)"

text \<open>A node as the member initialisers leave it, with no processing unit and no meters.\<close>

definition fresh_node :: GraphNode where
  "fresh_node =
     \<lparr> nodeId = 1, audioProcessor = None, isPrepared = False, enabled = 1,
       latencySamples = 0, gain = 0, lastGain = 0, inputGain = 0, lastInputGain = 0,
       inRMS = [], outRMS = [], keyRangeLow = 0, keyRangeHigh = 127,
       transposeOffset = 0, midiChannels = 0 \<rparr>"

subsection \<open>Latency\<close>

text \<open>
  \<^verbatim>\<open>int getLatencySamples() const { return latencySamples; }\<close>
  \<^verbatim>\<open>void setLatencySamples (int latency) { if (latencySamples != latency) latencySamples = latency; }\<close>

  To tell a call that stores from one that does not, the setter is split into the list of
  stores it performs and their effect on the node.
\<close>

datatype store = StoreLatencySamples int

fun perform :: "store \<Rightarrow> GraphNode \<Rightarrow> GraphNode" where
  "perform (StoreLatencySamples v) s = s\<lparr>latencySamples := v\<rparr>"

definition getLatencySamples :: "GraphNode \<Rightarrow> int" where
  "getLatencySamples s = latencySamples s"

definition setLatencySamples_stores :: "int \<Rightarrow> GraphNode \<Rightarrow> store list" where
  "setLatencySamples_stores latency s =
     (if latencySamples s \<noteq> latency then [StoreLatencySamples latency] else [])"

definition setLatencySamples :: "int \<Rightarrow> GraphNode \<Rightarrow> GraphNode" where
  "setLatencySamples latency s = fold perform (setLatencySamples_stores latency s) s"

subsection \<open>Gain\<close>

text \<open>
  \<^verbatim>\<open>inline float getInputGain() const { return inputGain.get(); }\<close> and its three
  siblings read one member each.
\<close>

definition getInputGain :: "GraphNode \<Rightarrow> float" where
  "getInputGain s = inputGain s"

definition getGain :: "GraphNode \<Rightarrow> float" where
  "getGain s = gain s"

definition getLastGain :: "GraphNode \<Rightarrow> float" where
  "getLastGain s = lastGain s"

definition getLastInputGain :: "GraphNode \<Rightarrow> float" where
  "getLastInputGain s = lastInputGain s"

text \<open>
  \<^verbatim>\<open>if (lastGain.get() != gain.get()) lastGain = gain;\<close>
  \<^verbatim>\<open>if (lastInputGain.get() != inputGain.get()) lastInputGain = inputGain;\<close>
  The two statements run in this order; the assignment copies the held value.
\<close>

definition updateGain :: "GraphNode \<Rightarrow> GraphNode" where
  "updateGain s =
     (let s1 = (if float_ne (getLastGain s) (getGain s) then s\<lparr>lastGain := gain s\<rparr> else s);
          s2 = (if float_ne (getLastInputGain s1) (getInputGain s1)
                then s1\<lparr>lastInputGain := inputGain s1\<rparr> else s1)
      in s2)"

text \<open>
  Modelled from the spec: the body of \<^verbatim>\<open>void setGain (const float f)\<close> is not in these
  sources, only its declaration. The spec describes it as an atomic store of the new
  target, audible only through the ramp: the shadow value is not touched.
\<close>

definition setGain :: "float \<Rightarrow> GraphNode \<Rightarrow> GraphNode" where
  "setGain f s = s\<lparr>gain := f\<rparr>"

text \<open>
  A node in the middle of a block: the gain target has moved from 1.0 (\<open>0x3F800000\<close>) to
  0.5 (\<open>0x3F000000\<close>) and the input-gain target from 1.0 to 2.0 (\<open>0x40000000\<close>), the
  shadows still hold 1.0.
\<close>

definition mid_block_node :: GraphNode where
  "mid_block_node =
     fresh_node\<lparr>gain := 0x3F000000, lastGain := 0x3F800000,
                inputGain := 0x40000000, lastInputGain := 0x3F800000\<rparr>"

text \<open>
  A node whose two targets are the quiet NaN \<open>0x7FC00000\<close>, and a prepared node with two
  input meters and two output meters.
\<close>

definition nan_target_node :: GraphNode where
  "nan_target_node = fresh_node\<lparr>gain := 0x7FC00000, inputGain := 0x7FC00000\<rparr>"

definition metered_node :: GraphNode where
  "metered_node =
     fresh_node\<lparr>isPrepared := True, inRMS := [0x3F000000, 0x3E800000],
                outRMS := [0x3F800000, 0x3F000000]\<rparr>"

subsection \<open>Assertions\<close>

text \<open>
  \<^verbatim>\<open>jassert\<close> is a macro of the JUCE library and is not defined in these sources. What a
  failed \<^verbatim>\<open>jassert\<close> does is fixed by the build, so it is a parameter of the model: in a
  \<open>Halting\<close> build a failed check ends the call there; in a \<open>CompiledOut\<close> build the
  macro expands to nothing and the call goes on.
\<close>

datatype jassert_mode = Halting | CompiledOut

datatype error = AssertionFailed | UncheckedRead

definition jassert_stops :: "jassert_mode \<Rightarrow> bool \<Rightarrow> bool" where
  "jassert_stops mode expression = (mode = Halting \<and> \<not> expression)"

definition isPositiveAndBelow :: "int \<Rightarrow> int \<Rightarrow> bool" where
  \<comment> \<open>JUCE: true when \<open>0 <= valueToTest < upperLimit\<close>\<close>
  "isPositiveAndBelow valueToTest upperLimit = (0 \<le> valueToTest \<and> valueToTest < upperLimit)"

subsection \<open>Metering\<close>

text \<open>
  \<^verbatim>\<open>OwnedArray::getUnchecked (index)\<close> reads the element at \<open>index\<close> without comparing
  it with the array's bounds. A read inside the array gives the element; a read outside has
  no defined result, which the model reports as the error \<open>UncheckedRead\<close>.
\<close>

definition getUnchecked :: "'a list \<Rightarrow> int \<Rightarrow> error + 'a" where
  "getUnchecked xs index =
     (if 0 \<le> index \<and> index < int (length xs) then Inr (xs ! nat index) else Inl UncheckedRead)"

text \<open>
  \<^verbatim>\<open>float getInputRMS(int chan) const { return (chan < inRMS.size()) ? inRMS.getUnchecked(chan)->get() : 0.0f; }\<close>
  \<^verbatim>\<open>float getOutputRMS (int chan) const { return (chan < outRMS.size()) ? outRMS.getUnchecked(chan)->get() : 0.0f; }\<close>
  The bit pattern of \<^verbatim>\<open>0.0f\<close> is \<open>0\<close>.
\<close>

definition getInputRMS :: "int \<Rightarrow> GraphNode \<Rightarrow> error + float" where
  "getInputRMS chan s =
     (if chan < int (length (inRMS s)) then getUnchecked (inRMS s) chan else Inr 0)"

definition getOutputRMS :: "int \<Rightarrow> GraphNode \<Rightarrow> error + float" where
  "getOutputRMS chan s =
     (if chan < int (length (outRMS s)) then getUnchecked (outRMS s) chan else Inr 0)"

subsection \<open>Key range and transpose offset\<close>

text \<open>
  \<^verbatim>\<open>jassert (low <= high);\<close>
  \<^verbatim>\<open>jassert (isPositiveAndBelow (low, 128));\<close>
  \<^verbatim>\<open>jassert (isPositiveAndBelow (high, 128));\<close>
  \<^verbatim>\<open>keyRangeLow.set (low); keyRangeHigh.set (high);\<close>
\<close>

definition setKeyRange :: "jassert_mode \<Rightarrow> int \<Rightarrow> int \<Rightarrow> GraphNode \<Rightarrow> error + GraphNode" where
  "setKeyRange mode low high s =
     (if jassert_stops mode (low \<le> high) then Inl AssertionFailed
      else if jassert_stops mode (isPositiveAndBelow low 128) then Inl AssertionFailed
      else if jassert_stops mode (isPositiveAndBelow high 128) then Inl AssertionFailed
      else Inr (s\<lparr>keyRangeLow := low, keyRangeHigh := high\<rparr>))"

text \<open>
  \<^verbatim>\<open>Range<int> { keyRangeLow.get(), keyRangeHigh.get() }\<close>: JUCE's two-argument
  \<^verbatim>\<open>Range\<close> constructor keeps the start and takes the larger of the two values as the end.
  A range is the pair of its start and its end.
\<close>

definition Range_int :: "int \<Rightarrow> int \<Rightarrow> int \<times> int" where
  "Range_int startValue endValue = (startValue, max startValue endValue)"

definition getKeyRange :: "GraphNode \<Rightarrow> int \<times> int" where
  "getKeyRange s = Range_int (keyRangeLow s) (keyRangeHigh s)"

text \<open>
  \<^verbatim>\<open>jassert (value >= -24 && value <= 24);\<close>
  \<^verbatim>\<open>transposeOffset.set (value);\<close>
\<close>

definition setTransposeOffset :: "jassert_mode \<Rightarrow> int \<Rightarrow> GraphNode \<Rightarrow> error + GraphNode" where
  "setTransposeOffset mode v s =
     (if jassert_stops mode (v \<ge> -24 \<and> v \<le> 24) then Inl AssertionFailed
      else Inr (s\<lparr>transposeOffset := v\<rparr>))"

definition getTransposeOffset :: "GraphNode \<Rightarrow> int" where
  "getTransposeOffset s = transposeOffset s"

definition key_range_ordered :: "GraphNode \<Rightarrow> bool" where
  "key_range_ordered s = (keyRangeLow s \<le> keyRangeHigh s)"

subsection \<open>MIDI channels\<close>

text \<open>
  Modelled from the spec: the class \<^verbatim>\<open>MidiChannels\<close> and its \<^verbatim>\<open>setChannels\<close> are not
  in these sources. The spec describes the filter as a 128-bit channel membership set that
  the setter writes under the property lock; the set is a 128-bit word, a channel is a
  member when its bit is set, and \<open>setChannels\<close> replaces the set by the one given.
\<close>

definition setChannels :: "MidiChannels \<Rightarrow> MidiChannels \<Rightarrow> MidiChannels" where
  "setChannels ch current = ch"

definition isMember :: "MidiChannels \<Rightarrow> nat \<Rightarrow> bool" where
  "isMember m channel = bit m channel"

text \<open>
  \<^verbatim>\<open>ScopedLock sl (propertyLock); midiChannels.setChannels (ch);\<close>
  The lock is taken and released inside the call, so a sequential run sees only the write.
\<close>

definition setMidiChannels :: "MidiChannels \<Rightarrow> GraphNode \<Rightarrow> GraphNode" where
  "setMidiChannels ch s = s\<lparr>midiChannels := setChannels ch (midiChannels s)\<rparr>"

definition getMidiChannels :: "GraphNode \<Rightarrow> MidiChannels" where
  "getMidiChannels s = midiChannels s"

subsection \<open>Capability queries\<close>

text \<open>
  \<^verbatim>\<open>virtual AudioProcessor* getAudioProcessor() const noexcept { return nullptr; }\<close>
  \<^verbatim>\<open>template<class T> inline T* processor() const noexcept { return dynamic_cast<T*> (getAudioProcessor()); }\<close>
  \<^verbatim>\<open>AudioPluginInstance* getAudioPluginInstance() const noexcept { return processor<AudioPluginInstance>(); }\<close>
  \<^verbatim>\<open>dynamic_cast\<close> of a null pointer is null; of an object, the object when its dynamic
  type is or derives from the target class, and null otherwise.
\<close>

definition getAudioProcessor :: "GraphNode \<Rightarrow> AudioProcessor option" where
  "getAudioProcessor s = audioProcessor s"

definition dynamic_cast :: "class_id \<Rightarrow> AudioProcessor option \<Rightarrow> AudioProcessor option" where
  "dynamic_cast T p =
     (case p of
        None \<Rightarrow> None
      | Some obj \<Rightarrow> if T \<in> set (dynamicClasses obj) then Some obj else None)"

definition processor :: "class_id \<Rightarrow> GraphNode \<Rightarrow> AudioProcessor option" where
  "processor T s = dynamic_cast T (getAudioProcessor s)"

definition getAudioPluginInstance :: "GraphNode \<Rightarrow> AudioProcessor option" where
  "getAudioPluginInstance s = processor AudioPluginInstanceClass s"

subsection \<open>Enablement\<close>

text \<open>
  \<^verbatim>\<open>inline bool isEnabled()  const { return enabled.get() == 1; }\<close>
\<close>

definition isEnabled :: "GraphNode \<Rightarrow> bool" where
  "isEnabled s = (enabled s = 1)"

text \<open>
  Modelled from the spec: the bodies of \<^verbatim>\<open>setEnabled\<close> and of
  \<^verbatim>\<open>EnablementUpdater::handleAsyncUpdate\<close> are not in these sources, only their
  declarations, and JUCE's \<^verbatim>\<open>AsyncUpdater\<close> is not either. The spec describes them so:
  \<open>setEnabled\<close>, if the requested state differs from the current atomic state, updates it
  and schedules a notification; the notification is a single-slot pending flag, checked
  once per iteration of the control thread's event loop, and setting it twice before it is
  drained is a no-op; the delivered event carries the node's identity, so that subscribers
  re-query the current state.

  The model adds to the node the pending flag and the log of the events delivered so far,
  each with the state a subscriber reads when it is delivered. A step is one whole call of
  \<open>setEnabled\<close>, from any thread, or one iteration of the control thread's event loop.
\<close>

record notifying_node =
  node_of :: GraphNode
  updatePending :: bool
  delivered :: "(nat \<times> bool) list"

definition setEnabled :: "bool \<Rightarrow> notifying_node \<Rightarrow> notifying_node" where
  "setEnabled shouldBeEnabled c =
     (if isEnabled (node_of c) \<noteq> shouldBeEnabled
      then c\<lparr>node_of := (node_of c)\<lparr>enabled := (if shouldBeEnabled then 1 else 0)\<rparr>,
             updatePending := True\<rparr>
      else c)"

definition controlLoopIteration :: "notifying_node \<Rightarrow> notifying_node" where
  "controlLoopIteration c =
     (if updatePending c
      then c\<lparr>updatePending := False,
             delivered := delivered c @ [(nodeId (node_of c), isEnabled (node_of c))]\<rparr>
      else c)"

definition idle_fresh_node :: notifying_node where
  "idle_fresh_node = \<lparr> node_of = fresh_node, updatePending = False, delivered = [] \<rparr>"

text \<open>
  A node that wraps a plain processing unit, which is an \<^verbatim>\<open>AudioProcessor\<close> but not an
  \<^verbatim>\<open>AudioPluginInstance\<close>.
\<close>

definition plain_processor_node :: GraphNode where
  "plain_processor_node =
     fresh_node\<lparr>audioProcessor :=
       Some \<lparr> objectId = 7, dynamicClasses = [AudioProcessorClass, OtherClass 3] \<rparr>\<rparr>"

subsection \<open>Sequences of calls\<close>

text \<open>
  The mutating inline member functions of the header, as values, and the effect of a
  sequence of calls on a node. A call that fails an assertion in a halting build ends the
  run.
\<close>

datatype call =
    SetLatencySamples int
  | UpdateGain
  | SetKeyRange int int
  | SetTransposeOffset int
  | SetMidiChannels MidiChannels

fun do_call :: "jassert_mode \<Rightarrow> call \<Rightarrow> GraphNode \<Rightarrow> error + GraphNode" where
  "do_call mode (SetLatencySamples n) s = Inr (setLatencySamples n s)"
| "do_call mode UpdateGain s = Inr (updateGain s)"
| "do_call mode (SetKeyRange low high) s = setKeyRange mode low high s"
| "do_call mode (SetTransposeOffset v) s = setTransposeOffset mode v s"
| "do_call mode (SetMidiChannels ch) s = Inr (setMidiChannels ch s)"

fun do_calls :: "jassert_mode \<Rightarrow> call list \<Rightarrow> GraphNode \<Rightarrow> error + GraphNode" where
  "do_calls mode [] s = Inr s"
| "do_calls mode (c # cs) s =
     (case do_call mode c s of Inl e \<Rightarrow> Inl e | Inr s' \<Rightarrow> do_calls mode cs s')"

text \<open>
  The contract of a call: what its \<^verbatim>\<open>jassert\<close> lines check. The calls without a
  \<^verbatim>\<open>jassert\<close> have none.
\<close>

fun within_contract :: "call \<Rightarrow> bool" where
  "within_contract (SetKeyRange low high) =
     (low \<le> high \<and> isPositiveAndBelow low 128 \<and> isPositiveAndBelow high 128)"
| "within_contract (SetTransposeOffset v) = (v \<ge> -24 \<and> v \<le> 24)"
| "within_contract _ = True"

section \<open>Properties\<close>

subsection \<open>Gain\<close>

lemma updateGain_keeps_targets:
  "gain (updateGain s) = gain s \<and> inputGain (updateGain s) = inputGain s"
  by (simp add: updateGain_def Let_def getLastGain_def getGain_def
      getLastInputGain_def getInputGain_def)

lemma updateGain_lastGain:
  "lastGain (updateGain s) = (if float_ne (lastGain s) (gain s) then gain s else lastGain s)"
  by (simp add: updateGain_def Let_def getLastGain_def getGain_def
      getLastInputGain_def getInputGain_def)

lemma updateGain_lastInputGain:
  "lastInputGain (updateGain s) =
     (if float_ne (lastInputGain s) (inputGain s) then inputGain s else lastInputGain s)"
  by (simp add: updateGain_def Let_def getLastGain_def getGain_def
      getLastInputGain_def getInputGain_def)

lemma snapped_float_eq:
  "\<not> isNaN g \<Longrightarrow> float_eq (if float_ne l g then g else l) g"
  by (simp add: float_ne_def float_eq_def)

lemma snapped_NaN: "isNaN g \<Longrightarrow> (if float_ne l g then g else l) = g"
  by (simp add: float_ne_def float_eq_def)

text \<open>
  C1, as stated, fails when the gain target is a NaN: \<open>updateGain\<close> copies the NaN into the
  shadow, and a NaN compares unequal to itself, so \<open>getLastGain() == getGain()\<close> is false.
  The input is \<open>setGain\<close> of the quiet NaN \<open>0x7FC00000\<close> on a fresh node.
\<close>

theorem updateGain_NaN_counterexample:
  "\<not> float_eq (getLastGain (updateGain (setGain 0x7FC00000 fresh_node)))
               (getGain (updateGain (setGain 0x7FC00000 fresh_node)))"
  by (simp add: updateGain_def Let_def getLastGain_def getGain_def getLastInputGain_def
      getInputGain_def float_ne_def float_eq_def setGain_def fresh_node_def isNaN_def)

text \<open>
  C1, amended. For every node state, \<open>updateGain\<close> leaves both targets as they are; each
  shadow whose target is not a NaN compares equal (\<open>==\<close>) to its target afterwards, and a
  shadow whose target is a NaN holds that same NaN. In particular, for every float \<open>x\<close>
  that is not a NaN, \<open>setGain x\<close> followed by \<open>updateGain\<close> on any node, so also on one
  just constructed, gives \<open>getGain() = x\<close> and \<open>getLastGain() == getGain()\<close>.
\<close>

theorem updateGain_snaps_shadows:
  "getGain (updateGain s) = getGain s \<and>
   getInputGain (updateGain s) = getInputGain s \<and>
   (\<not> isNaN (getGain s) \<longrightarrow>
      float_eq (getLastGain (updateGain s)) (getGain (updateGain s))) \<and>
   (\<not> isNaN (getInputGain s) \<longrightarrow>
      float_eq (getLastInputGain (updateGain s)) (getInputGain (updateGain s))) \<and>
   (isNaN (getGain s) \<longrightarrow> getLastGain (updateGain s) = getGain s) \<and>
   (isNaN (getInputGain s) \<longrightarrow> getLastInputGain (updateGain s) = getInputGain s) \<and>
   (\<not> isNaN x \<longrightarrow>
      getGain (updateGain (setGain x s)) = x \<and>
      float_eq (getLastGain (updateGain (setGain x s))) (getGain (updateGain (setGain x s))))"
proof -
  have targets: "getGain (updateGain t) = getGain t \<and> getInputGain (updateGain t) = getInputGain t"
    for t
    by (simp add: getGain_def getInputGain_def updateGain_keeps_targets)
  have shadow: "\<not> isNaN (getGain t) \<longrightarrow> float_eq (getLastGain (updateGain t)) (getGain (updateGain t))"
    for t
    by (simp add: getGain_def getLastGain_def updateGain_keeps_targets updateGain_lastGain
        snapped_float_eq)
  have inputShadow: "\<not> isNaN (getInputGain s) \<longrightarrow>
      float_eq (getLastInputGain (updateGain s)) (getInputGain (updateGain s))"
    by (simp add: getInputGain_def getLastInputGain_def updateGain_keeps_targets
        updateGain_lastInputGain snapped_float_eq)
  have nan: "isNaN (getGain s) \<longrightarrow> getLastGain (updateGain s) = getGain s"
    by (simp add: getGain_def getLastGain_def updateGain_lastGain snapped_NaN)
  have inputNan: "isNaN (getInputGain s) \<longrightarrow> getLastInputGain (updateGain s) = getInputGain s"
    by (simp add: getInputGain_def getLastInputGain_def updateGain_lastInputGain snapped_NaN)
  have stored: "getGain (setGain x s) = x"
    by (simp add: getGain_def setGain_def)
  have afterSet: "\<not> isNaN x \<longrightarrow>
      getGain (updateGain (setGain x s)) = x \<and>
      float_eq (getLastGain (updateGain (setGain x s))) (getGain (updateGain (setGain x s)))"
    using targets [of "setGain x s"] shadow [of "setGain x s"] stored by simp
  from targets [of s] shadow [of s] inputShadow nan inputNan afterSet show ?thesis
    by blast
qed

theorem updateGain_snaps_shadows_witness:
  "(\<not> isNaN (getGain mid_block_node) \<and>
    \<not> isNaN (getInputGain mid_block_node) \<and>
    \<not> isNaN (0x3F800000 :: float) \<and>
    float_eq (getLastGain (updateGain mid_block_node)) (getGain (updateGain mid_block_node)) \<and>
    float_eq (getLastInputGain (updateGain mid_block_node))
             (getInputGain (updateGain mid_block_node)) \<and>
    getGain (updateGain (setGain 0x3F800000 mid_block_node)) = 0x3F800000 \<and>
    float_eq (getLastGain (updateGain (setGain 0x3F800000 mid_block_node)))
             (getGain (updateGain (setGain 0x3F800000 mid_block_node)))) \<and>
   (isNaN (getGain nan_target_node) \<and>
    isNaN (getInputGain nan_target_node) \<and>
    getLastGain (updateGain nan_target_node) = getGain nan_target_node \<and>
    getLastInputGain (updateGain nan_target_node) = getInputGain nan_target_node)"
proof -
  have h1: "\<not> isNaN (getGain mid_block_node)"
    by (simp add: mid_block_node_def getGain_def fresh_node_def isNaN_def)
  have h2: "\<not> isNaN (getInputGain mid_block_node)"
    by (simp add: mid_block_node_def getInputGain_def fresh_node_def isNaN_def)
  have h3: "\<not> isNaN (0x3F800000 :: float)"
    by (simp add: isNaN_def)
  have h4: "isNaN (getGain nan_target_node)"
    by (simp add: nan_target_node_def getGain_def fresh_node_def isNaN_def)
  have h5: "isNaN (getInputGain nan_target_node)"
    by (simp add: nan_target_node_def getInputGain_def fresh_node_def isNaN_def)
  show ?thesis
    using h1 h2 h3 h4 h5
      updateGain_snaps_shadows [of mid_block_node "0x3F800000"]
      updateGain_snaps_shadows [of nan_target_node "0x3F800000"]
    by blast
qed

subsection \<open>Metering\<close>

lemma getUnchecked_in_range:
  "0 \<le> index \<Longrightarrow> index < int (length xs) \<Longrightarrow> getUnchecked xs index = Inr (xs ! nat index)"
  by (simp add: getUnchecked_def)

lemma getUnchecked_negative: "index < 0 \<Longrightarrow> getUnchecked xs index = Inl UncheckedRead"
  by (simp add: getUnchecked_def)

text \<open>
  C3. The claim asks \<open>0.0\<close> for every channel index outside the allocated meters. The
  getters compare the index with the array size only, so a negative index passes the guard
  and reaches the unchecked read: on a node with two input and two output meters,
  \<open>getInputRMS (-1)\<close> and \<open>getOutputRMS (-1)\<close> do not return \<open>0.0\<close>, and the same
  happens on a node with no meters at all.
\<close>

theorem getRMS_negative_channel_unchecked:
  "getInputRMS (-1) metered_node = Inl UncheckedRead \<and>
   getOutputRMS (-1) metered_node = Inl UncheckedRead \<and>
   getInputRMS (-1) fresh_node = Inl UncheckedRead \<and>
   getOutputRMS (-1) fresh_node = Inl UncheckedRead"
  by (simp add: getInputRMS_def getOutputRMS_def getUnchecked_def metered_node_def
      fresh_node_def)

text \<open>
  C10. The getters guard only the upper bound of the channel index. For every \<open>chan \<ge> 0\<close>
  the read is total: it returns the stored value when \<open>chan\<close> is below the size of the
  meter array and \<open>0.0\<close> otherwise. A negative \<open>chan\<close> is below every size, so it reaches
  the unchecked read.
\<close>

theorem getRMS_guards_upper_bound_only:
  "(0 \<le> chan \<longrightarrow>
      getInputRMS chan s =
        Inr (if chan < int (length (inRMS s)) then inRMS s ! nat chan else 0) \<and>
      getOutputRMS chan s =
        Inr (if chan < int (length (outRMS s)) then outRMS s ! nat chan else 0)) \<and>
   (chan < 0 \<longrightarrow>
      getInputRMS chan s = Inl UncheckedRead \<and> getOutputRMS chan s = Inl UncheckedRead)"
proof -
  have nonneg: "getInputRMS chan s =
        Inr (if chan < int (length (inRMS s)) then inRMS s ! nat chan else 0) \<and>
      getOutputRMS chan s =
        Inr (if chan < int (length (outRMS s)) then outRMS s ! nat chan else 0)"
    if "0 \<le> chan"
    using that by (simp add: getInputRMS_def getOutputRMS_def getUnchecked_in_range)
  have neg: "getInputRMS chan s = Inl UncheckedRead \<and> getOutputRMS chan s = Inl UncheckedRead"
    if "chan < 0"
  proof -
    from that have "chan < int (length (inRMS s))" and "chan < int (length (outRMS s))"
      by simp_all
    with that show ?thesis
      by (simp add: getInputRMS_def getOutputRMS_def getUnchecked_negative)
  qed
  from nonneg neg show ?thesis by blast
qed

theorem getRMS_guards_upper_bound_only_witness:
  "((0::int) \<le> 1 \<and>
    getInputRMS 1 metered_node = Inr 0x3E800000 \<and>
    getOutputRMS 1 metered_node = Inr 0x3F000000) \<and>
   ((0::int) \<le> 2 \<and>
    getInputRMS 2 metered_node = Inr 0 \<and> getOutputRMS 2 metered_node = Inr 0) \<and>
   ((-3::int) < 0 \<and>
    getInputRMS (-3) metered_node = Inl UncheckedRead \<and>
    getOutputRMS (-3) metered_node = Inl UncheckedRead)"
proof -
  have a: "(0::int) \<le> 1" and b: "(0::int) \<le> 2" and c: "(-3::int) < 0"
    by simp_all
  have one: "getInputRMS 1 metered_node = Inr 0x3E800000 \<and>
      getOutputRMS 1 metered_node = Inr 0x3F000000"
    using a getRMS_guards_upper_bound_only [of 1 metered_node]
    by (simp add: metered_node_def)
  have two: "getInputRMS 2 metered_node = Inr 0 \<and> getOutputRMS 2 metered_node = Inr 0"
    using b getRMS_guards_upper_bound_only [of 2 metered_node]
    by (simp add: metered_node_def)
  have minus: "getInputRMS (-3) metered_node = Inl UncheckedRead \<and>
      getOutputRMS (-3) metered_node = Inl UncheckedRead"
    using c getRMS_guards_upper_bound_only [of "-3" metered_node]
    by simp
  from a b c one two minus show ?thesis by blast
qed

subsection \<open>Key range\<close>

lemma setKeyRange_within_contract:
  "low \<le> high \<Longrightarrow> isPositiveAndBelow low 128 \<Longrightarrow> isPositiveAndBelow high 128 \<Longrightarrow>
   setKeyRange mode low high s = Inr (s\<lparr>keyRangeLow := low, keyRangeHigh := high\<rparr>)"
  by (simp add: setKeyRange_def jassert_stops_def)

lemma setKeyRange_Halting_Inr:
  "setKeyRange Halting low high s = Inr s' \<Longrightarrow> low \<le> high \<and> key_range_ordered s'"
  by (auto simp: setKeyRange_def jassert_stops_def key_range_ordered_def split: if_splits)

lemma setKeyRange_Halting_violation:
  "\<not> (low \<le> high \<and> isPositiveAndBelow low 128 \<and> isPositiveAndBelow high 128) \<Longrightarrow>
   setKeyRange Halting low high s = Inl AssertionFailed"
  by (auto simp: setKeyRange_def jassert_stops_def)

lemma updateGain_key_range:
  "keyRangeLow (updateGain s) = keyRangeLow s \<and> keyRangeHigh (updateGain s) = keyRangeHigh s"
  by (simp add: updateGain_def Let_def)

lemma setLatencySamples_key_range:
  "keyRangeLow (setLatencySamples n s) = keyRangeLow s \<and>
   keyRangeHigh (setLatencySamples n s) = keyRangeHigh s"
  by (simp add: setLatencySamples_def setLatencySamples_stores_def)

lemma do_call_Halting_ordered:
  "key_range_ordered s \<Longrightarrow> do_call Halting c s = Inr s' \<Longrightarrow> key_range_ordered s'"
proof (cases c)
  case (SetKeyRange low high)
  assume "do_call Halting c s = Inr s'"
  with SetKeyRange show ?thesis
    by (simp add: setKeyRange_Halting_Inr)
next
  case (SetLatencySamples n)
  assume "key_range_ordered s" and "do_call Halting c s = Inr s'"
  with SetLatencySamples show ?thesis
    by (auto simp: key_range_ordered_def setLatencySamples_key_range)
next
  case UpdateGain
  assume "key_range_ordered s" and "do_call Halting c s = Inr s'"
  with UpdateGain show ?thesis
    by (auto simp: key_range_ordered_def updateGain_key_range)
next
  case (SetTransposeOffset v)
  assume "key_range_ordered s" and "do_call Halting c s = Inr s'"
  with SetTransposeOffset show ?thesis
    by (auto simp: key_range_ordered_def setTransposeOffset_def split: if_splits)
next
  case (SetMidiChannels ch)
  assume "key_range_ordered s" and "do_call Halting c s = Inr s'"
  with SetMidiChannels show ?thesis
    by (auto simp: key_range_ordered_def setMidiChannels_def)
qed

lemma do_calls_Halting_ordered:
  "key_range_ordered s \<Longrightarrow> do_calls Halting cs s = Inr s' \<Longrightarrow> key_range_ordered s'"
proof (induction cs arbitrary: s)
  case Nil
  then show ?case by simp
next
  case (Cons c cs)
  from Cons.prems(2) obtain t where step: "do_call Halting c s = Inr t"
    and rest: "do_calls Halting cs t = Inr s'"
    by (auto split: sum.splits)
  from Cons.prems(1) step have "key_range_ordered t"
    by (rule do_call_Halting_ordered)
  from this rest show ?case
    by (rule Cons.IH)
qed

lemma do_call_within_contract:
  "within_contract c \<Longrightarrow> key_range_ordered s \<Longrightarrow>
   \<exists>s'. do_call mode c s = Inr s' \<and> key_range_ordered s'"
proof (cases c)
  case (SetKeyRange low high)
  assume "within_contract c"
  with SetKeyRange show ?thesis
    by (simp add: setKeyRange_within_contract key_range_ordered_def)
next
  case (SetLatencySamples n)
  assume "key_range_ordered s"
  with SetLatencySamples show ?thesis
    by (simp add: key_range_ordered_def setLatencySamples_key_range)
next
  case UpdateGain
  assume "key_range_ordered s"
  with UpdateGain show ?thesis
    by (simp add: key_range_ordered_def updateGain_key_range)
next
  case (SetTransposeOffset v)
  assume "within_contract c" and "key_range_ordered s"
  with SetTransposeOffset show ?thesis
    by (simp add: key_range_ordered_def setTransposeOffset_def jassert_stops_def)
next
  case (SetMidiChannels ch)
  assume "key_range_ordered s"
  with SetMidiChannels show ?thesis
    by (simp add: key_range_ordered_def setMidiChannels_def)
qed

lemma do_calls_within_contract:
  "list_all within_contract cs \<Longrightarrow> key_range_ordered s \<Longrightarrow>
   \<exists>s'. do_calls mode cs s = Inr s' \<and> key_range_ordered s'"
proof (induction cs arbitrary: s)
  case Nil
  then show ?case by simp
next
  case (Cons c cs)
  from Cons.prems have "within_contract c" and all: "list_all within_contract cs"
    by simp_all
  with Cons.prems(2) obtain t where step: "do_call mode c s = Inr t"
    and ordered: "key_range_ordered t"
    using do_call_within_contract by blast
  from Cons.IH [OF all ordered] obtain s' where "do_calls mode cs t = Inr s'"
    and "key_range_ordered s'"
    by blast
  with step show ?case by simp
qed

text \<open>
  C4, as stated, fails in a build whose \<^verbatim>\<open>jassert\<close> is compiled out: on a node just
  constructed, \<open>setKeyRange 100 5\<close> returns normally and leaves the low bound above the
  high bound.
\<close>

theorem key_range_inverted_counterexample:
  "member_defaults fresh_node \<and>
   do_calls CompiledOut [SetKeyRange 100 5] fresh_node =
     Inr (fresh_node\<lparr>keyRangeLow := 100, keyRangeHigh := 5\<rparr>) \<and>
   \<not> key_range_ordered (fresh_node\<lparr>keyRangeLow := 100, keyRangeHigh := 5\<rparr>)"
  by (simp add: member_defaults_def fresh_node_def setKeyRange_def jassert_stops_def
      key_range_ordered_def)

text \<open>
  C4, amended. The key range is ordered at construction (defaults 0 and 127). In a build
  whose \<^verbatim>\<open>jassert\<close> halts, it is ordered in every state reached from a constructed node
  by the mutating member functions of the header, and a \<open>setKeyRange\<close> call that violates
  the contract (low above high, or a bound outside 0..127) fails its assertion and stores
  nothing. In every build, a sequence of calls that are all within their contracts runs to
  the end and leaves the key range ordered.
\<close>

theorem key_range_invariant:
  "(member_defaults s0 \<longrightarrow> key_range_ordered s0) \<and>
   (member_defaults s0 \<and> do_calls Halting cs s0 = Inr s' \<longrightarrow> key_range_ordered s') \<and>
   (\<not> (low \<le> high \<and> isPositiveAndBelow low 128 \<and> isPositiveAndBelow high 128) \<longrightarrow>
      setKeyRange Halting low high s = Inl AssertionFailed) \<and>
   (member_defaults s0 \<and> list_all within_contract cs \<longrightarrow>
      (\<exists>t. do_calls mode cs s0 = Inr t \<and> key_range_ordered t))"
proof -
  have init: "key_range_ordered s0" if "member_defaults s0"
    using that by (simp add: member_defaults_def key_range_ordered_def)
  have halting: "key_range_ordered s'"
    if "member_defaults s0" and "do_calls Halting cs s0 = Inr s'"
    using init [OF that(1)] that(2) by (rule do_calls_Halting_ordered)
  have contract: "\<exists>t. do_calls mode cs s0 = Inr t \<and> key_range_ordered t"
    if "member_defaults s0" and "list_all within_contract cs"
    using that(2) init [OF that(1)] by (rule do_calls_within_contract)
  from init halting contract setKeyRange_Halting_violation [of low high s]
  show ?thesis by blast
qed

theorem key_range_invariant_witness:
  "member_defaults fresh_node \<and>
   key_range_ordered fresh_node \<and>
   do_calls Halting [SetKeyRange 36 96, UpdateGain, SetKeyRange 60 60] fresh_node =
     Inr (fresh_node\<lparr>keyRangeLow := 60, keyRangeHigh := 60\<rparr>) \<and>
   key_range_ordered (fresh_node\<lparr>keyRangeLow := 60, keyRangeHigh := 60\<rparr>) \<and>
   \<not> ((100::int) \<le> 5 \<and> isPositiveAndBelow 100 128 \<and> isPositiveAndBelow 5 128) \<and>
   setKeyRange Halting 100 5 fresh_node = Inl AssertionFailed \<and>
   list_all within_contract [SetKeyRange 36 96, UpdateGain, SetKeyRange 60 60] \<and>
   (\<exists>t. do_calls CompiledOut [SetKeyRange 36 96, UpdateGain, SetKeyRange 60 60] fresh_node = Inr t \<and>
        key_range_ordered t)"
proof -
  have h1: "member_defaults fresh_node"
    by (simp add: member_defaults_def fresh_node_def)
  have h2: "do_calls Halting [SetKeyRange 36 96, UpdateGain, SetKeyRange 60 60] fresh_node =
     Inr (fresh_node\<lparr>keyRangeLow := 60, keyRangeHigh := 60\<rparr>)"
    by (simp add: fresh_node_def setKeyRange_def jassert_stops_def isPositiveAndBelow_def
        updateGain_def Let_def getLastGain_def getGain_def getLastInputGain_def
        getInputGain_def float_ne_def float_eq_def isNaN_def)
  have h3: "\<not> ((100::int) \<le> 5 \<and> isPositiveAndBelow 100 128 \<and> isPositiveAndBelow 5 128)"
    by simp
  have h4: "list_all within_contract [SetKeyRange 36 96, UpdateGain, SetKeyRange 60 60]"
    by (simp add: isPositiveAndBelow_def)
  show ?thesis
    using h1 h2 h3 h4
      key_range_invariant [of fresh_node "[SetKeyRange 36 96, UpdateGain, SetKeyRange 60 60]"
        "fresh_node\<lparr>keyRangeLow := 60, keyRangeHigh := 60\<rparr>" 100 5 fresh_node CompiledOut]
    by blast
qed

text \<open>
  C5. For all integers \<open>low\<close>, \<open>high\<close> with \<open>0 \<le> low \<le> high \<le> 127\<close>, in either build
  and on every node, \<open>setKeyRange low high\<close> returns normally, and \<open>getKeyRange\<close> on the
  node it leaves returns exactly the pair \<open>(low, high)\<close>.
\<close>

theorem setKeyRange_getKeyRange:
  assumes "0 \<le> low" and "low \<le> high" and "high \<le> 127"
  shows "setKeyRange mode low high s = Inr (s\<lparr>keyRangeLow := low, keyRangeHigh := high\<rparr>) \<and>
         getKeyRange (s\<lparr>keyRangeLow := low, keyRangeHigh := high\<rparr>) = (low, high)"
proof -
  from assms have "isPositiveAndBelow low 128" and "isPositiveAndBelow high 128"
    by (simp_all add: isPositiveAndBelow_def)
  with assms(2)
  have "setKeyRange mode low high s = Inr (s\<lparr>keyRangeLow := low, keyRangeHigh := high\<rparr>)"
    by (rule setKeyRange_within_contract)
  moreover from assms(2)
  have "getKeyRange (s\<lparr>keyRangeLow := low, keyRangeHigh := high\<rparr>) = (low, high)"
    by (simp add: getKeyRange_def Range_int_def)
  ultimately show ?thesis by simp
qed

theorem setKeyRange_getKeyRange_witness:
  "(0::int) \<le> 36 \<and> (36::int) \<le> 96 \<and> (96::int) \<le> 127 \<and>
   setKeyRange Halting 36 96 fresh_node =
     Inr (fresh_node\<lparr>keyRangeLow := 36, keyRangeHigh := 96\<rparr>) \<and>
   getKeyRange (fresh_node\<lparr>keyRangeLow := 36, keyRangeHigh := 96\<rparr>) = (36, 96)"
proof -
  have a: "(0::int) \<le> 36" and b: "(36::int) \<le> 96" and c: "(96::int) \<le> 127"
    by simp_all
  from a b c setKeyRange_getKeyRange [OF a b c, of Halting fresh_node] show ?thesis
    by blast
qed

subsection \<open>Transpose offset\<close>

text \<open>
  C6. For every integer \<open>v\<close> in \<open>[-24, 24]\<close>, in either build and on every node,
  \<open>setTransposeOffset v\<close> returns normally, and \<open>getTransposeOffset\<close> on the node it
  leaves returns exactly \<open>v\<close>.
\<close>

theorem setTransposeOffset_getTransposeOffset:
  assumes "-24 \<le> v" and "v \<le> 24"
  shows "setTransposeOffset mode v s = Inr (s\<lparr>transposeOffset := v\<rparr>) \<and>
         getTransposeOffset (s\<lparr>transposeOffset := v\<rparr>) = v"
  using assms by (simp add: setTransposeOffset_def jassert_stops_def getTransposeOffset_def)

theorem setTransposeOffset_getTransposeOffset_witness:
  "(-24::int) \<le> -12 \<and> (-12::int) \<le> 24 \<and>
   setTransposeOffset Halting (-12) fresh_node = Inr (fresh_node\<lparr>transposeOffset := -12\<rparr>) \<and>
   getTransposeOffset (fresh_node\<lparr>transposeOffset := -12\<rparr>) = -12"
proof -
  have a: "(-24::int) \<le> -12" and b: "(-12::int) \<le> 24"
    by simp_all
  from a b setTransposeOffset_getTransposeOffset [OF a b, of Halting fresh_node] show ?thesis
    by blast
qed

subsection \<open>MIDI channels\<close>

text \<open>
  C7. For every 128-bit channel set \<open>ch\<close> and every node, \<open>getMidiChannels\<close> after
  \<open>setMidiChannels ch\<close> has, for every channel in \<open>[0, 127]\<close>, the membership that \<open>ch\<close>
  has.
\<close>

theorem setMidiChannels_getMidiChannels:
  "\<forall>channel < 128.
     isMember (getMidiChannels (setMidiChannels ch s)) channel = isMember ch channel"
  by (simp add: getMidiChannels_def setMidiChannels_def setChannels_def)

theorem setMidiChannels_getMidiChannels_witness:
  "(9::nat) < 128 \<and> (10::nat) < 128 \<and>
   isMember 0x202 9 \<and> isMember (getMidiChannels (setMidiChannels 0x202 fresh_node)) 9 \<and>
   \<not> isMember 0x202 10 \<and> \<not> isMember (getMidiChannels (setMidiChannels 0x202 fresh_node)) 10"
proof -
  have a: "(9::nat) < 128" and b: "(10::nat) < 128"
    by simp_all
  have m9: "isMember 0x202 9" and m10: "\<not> isMember 0x202 10"
    by (simp_all add: isMember_def)
  from setMidiChannels_getMidiChannels [of "0x202" fresh_node] a b
  have "isMember (getMidiChannels (setMidiChannels 0x202 fresh_node)) 9 = isMember 0x202 9"
    and "isMember (getMidiChannels (setMidiChannels 0x202 fresh_node)) 10 = isMember 0x202 10"
    by blast+
  with a b m9 m10 show ?thesis by blast
qed

subsection \<open>Capability queries\<close>

text \<open>
  C9. When \<open>getAudioProcessor\<close> returns null, \<open>processor T\<close> for every class \<open>T\<close> and
  \<open>getAudioPluginInstance\<close> return null; when it returns an object whose dynamic type is
  not the requested class, nor derived from it, the query returns null as well. The
  queries return a pointer or null and have no error result. A supported capability
  returns the object itself.
\<close>

theorem capability_queries_null:
  "(getAudioProcessor s = None \<longrightarrow>
      processor T s = None \<and> getAudioPluginInstance s = None) \<and>
   (getAudioProcessor s = Some obj \<and> T \<notin> set (dynamicClasses obj) \<longrightarrow>
      processor T s = None) \<and>
   (getAudioProcessor s = Some obj \<and> AudioPluginInstanceClass \<notin> set (dynamicClasses obj) \<longrightarrow>
      getAudioPluginInstance s = None) \<and>
   (getAudioProcessor s = Some obj \<and> T \<in> set (dynamicClasses obj) \<longrightarrow>
      processor T s = Some obj)"
  by (simp add: processor_def getAudioPluginInstance_def dynamic_cast_def)

theorem capability_queries_null_witness:
  "(getAudioProcessor fresh_node = None \<and>
    processor (OtherClass 5) fresh_node = None \<and> getAudioPluginInstance fresh_node = None) \<and>
   (getAudioProcessor plain_processor_node =
      Some \<lparr> objectId = 7, dynamicClasses = [AudioProcessorClass, OtherClass 3] \<rparr> \<and>
    OtherClass 5 \<notin> set [AudioProcessorClass, OtherClass 3] \<and>
    AudioPluginInstanceClass \<notin> set [AudioProcessorClass, OtherClass 3] \<and>
    AudioProcessorClass \<in> set [AudioProcessorClass, OtherClass 3] \<and>
    processor (OtherClass 5) plain_processor_node = None \<and>
    getAudioPluginInstance plain_processor_node = None \<and>
    processor AudioProcessorClass plain_processor_node =
      Some \<lparr> objectId = 7, dynamicClasses = [AudioProcessorClass, OtherClass 3] \<rparr>)"
proof -
  let ?obj = "\<lparr> objectId = 7, dynamicClasses = [AudioProcessorClass, OtherClass 3] \<rparr>"
  have h1: "getAudioProcessor fresh_node = None"
    by (simp add: getAudioProcessor_def fresh_node_def)
  have h2: "getAudioProcessor plain_processor_node = Some ?obj"
    by (simp add: getAudioProcessor_def plain_processor_node_def)
  have h3: "OtherClass 5 \<notin> set (dynamicClasses ?obj)"
    and h4: "AudioPluginInstanceClass \<notin> set (dynamicClasses ?obj)"
    and h5: "AudioProcessorClass \<in> set (dynamicClasses ?obj)"
    by simp_all
  have none: "processor (OtherClass 5) fresh_node = None \<and>
      getAudioPluginInstance fresh_node = None"
    using h1 capability_queries_null [where s = fresh_node and T = "OtherClass 5"] by blast
  have wrong: "processor (OtherClass 5) plain_processor_node = None \<and>
      getAudioPluginInstance plain_processor_node = None"
    using h2 h3 h4 capability_queries_null [where s = plain_processor_node and obj = ?obj and T = "OtherClass 5"]
    by blast
  have right: "processor AudioProcessorClass plain_processor_node = Some ?obj"
    using h2 h5 capability_queries_null [where s = plain_processor_node and obj = ?obj and T = AudioProcessorClass]
    by blast
  from h1 h2 h3 h4 h5 none wrong right show ?thesis by simp
qed

subsection \<open>Enablement\<close>

lemma setEnabled_delivered: "delivered (setEnabled b c) = delivered c"
  by (simp add: setEnabled_def)

lemma setEnabled_nodeId: "nodeId (node_of (setEnabled b c)) = nodeId (node_of c)"
  by (simp add: setEnabled_def)

lemma fold_setEnabled_delivered: "delivered (fold setEnabled bs c) = delivered c"
  by (induction bs arbitrary: c) (simp_all add: setEnabled_delivered)

lemma fold_setEnabled_nodeId:
  "nodeId (node_of (fold setEnabled bs c)) = nodeId (node_of c)"
  by (induction bs arbitrary: c) (simp_all add: setEnabled_nodeId)

lemma controlLoopIteration_delivered:
  "delivered (controlLoopIteration c) =
     delivered c @ (if updatePending c then [(nodeId (node_of c), isEnabled (node_of c))] else [])"
  by (simp add: controlLoopIteration_def)

text \<open>
  C2. \<open>setEnabled True\<close> on an enabled node changes nothing, so it schedules no
  notification. No sequence of \<open>setEnabled\<close> calls delivers an event by itself: the log is
  the same after the calls as before. The next iteration of the control thread's event loop
  delivers at most one event for the whole sequence, and a subscriber of that event reads
  the state the last call left; after it nothing is pending.
\<close>

theorem setEnabled_coalesces:
  "(isEnabled (node_of c) \<longrightarrow> setEnabled True c = c) \<and>
   delivered (fold setEnabled bs c) = delivered c \<and>
   (\<exists>evs. delivered (controlLoopIteration (fold setEnabled bs c)) = delivered c @ evs \<and>
          length evs \<le> 1 \<and>
          (\<forall>e \<in> set evs.
             e = (nodeId (node_of c), isEnabled (node_of (fold setEnabled bs c))))) \<and>
   \<not> updatePending (controlLoopIteration (fold setEnabled bs c))"
proof -
  let ?c' = "fold setEnabled bs c"
  let ?evs = "if updatePending ?c' then [(nodeId (node_of ?c'), isEnabled (node_of ?c'))] else []"
  have same: "isEnabled (node_of c) \<longrightarrow> setEnabled True c = c"
    by (simp add: setEnabled_def)
  have log: "delivered ?c' = delivered c"
    by (rule fold_setEnabled_delivered)
  have "delivered (controlLoopIteration ?c') = delivered c @ ?evs"
    by (simp only: controlLoopIteration_delivered log)
  moreover have "length ?evs \<le> 1"
    by simp
  moreover have "\<forall>e \<in> set ?evs. e = (nodeId (node_of c), isEnabled (node_of ?c'))"
    by (simp add: fold_setEnabled_nodeId)
  ultimately have one: "\<exists>evs. delivered (controlLoopIteration ?c') = delivered c @ evs \<and>
      length evs \<le> 1 \<and>
      (\<forall>e \<in> set evs. e = (nodeId (node_of c), isEnabled (node_of ?c')))"
    by blast
  have drained: "\<not> updatePending (controlLoopIteration ?c')"
    by (simp add: controlLoopIteration_def)
  from same log one drained show ?thesis by blast
qed

theorem setEnabled_coalesces_witness:
  "isEnabled (node_of idle_fresh_node) \<and>
   setEnabled True idle_fresh_node = idle_fresh_node \<and>
   delivered (fold setEnabled [False, True] idle_fresh_node) = [] \<and>
   delivered (controlLoopIteration (fold setEnabled [False, True] idle_fresh_node)) = [(1, True)] \<and>
   \<not> updatePending (controlLoopIteration (fold setEnabled [False, True] idle_fresh_node))"
proof -
  have h: "isEnabled (node_of idle_fresh_node)"
    by (simp add: idle_fresh_node_def fresh_node_def isEnabled_def)
  have d: "delivered idle_fresh_node = []"
    by (simp add: idle_fresh_node_def)
  have run: "delivered (controlLoopIteration (fold setEnabled [False, True] idle_fresh_node)) =
      [(1, True)]"
    by (simp add: idle_fresh_node_def fresh_node_def isEnabled_def setEnabled_def
        controlLoopIteration_def)
  from h d run setEnabled_coalesces [of idle_fresh_node "[False, True]"] show ?thesis
    by simp
qed

subsection \<open>Latency\<close>

text \<open>
  C8. For every integer \<open>n\<close> and every node, \<open>setLatencySamples n\<close> followed by
  \<open>getLatencySamples\<close> returns \<open>n\<close>. The setter compares before it stores: a call whose
  argument equals the stored latency performs no store and leaves the node as it was, and
  a call with a different argument performs the one store of that argument.
\<close>

theorem setLatencySamples_roundtrip:
  "getLatencySamples (setLatencySamples n s) = n \<and>
   (latencySamples s = n \<longrightarrow>
      setLatencySamples_stores n s = [] \<and> setLatencySamples n s = s) \<and>
   (latencySamples s \<noteq> n \<longrightarrow>
      setLatencySamples_stores n s = [StoreLatencySamples n])"
  by (simp add: getLatencySamples_def setLatencySamples_def setLatencySamples_stores_def)

theorem setLatencySamples_roundtrip_witness:
  "(latencySamples fresh_node = 0 \<and>
    getLatencySamples (setLatencySamples 0 fresh_node) = 0 \<and>
    setLatencySamples_stores 0 fresh_node = [] \<and>
    setLatencySamples 0 fresh_node = fresh_node) \<and>
   (latencySamples fresh_node \<noteq> 256 \<and>
    getLatencySamples (setLatencySamples 256 fresh_node) = 256 \<and>
    setLatencySamples_stores 256 fresh_node = [StoreLatencySamples 256])"
proof -
  have h: "latencySamples fresh_node = 0" and h': "latencySamples fresh_node \<noteq> 256"
    by (simp_all add: fresh_node_def)
  show ?thesis
    using h h' setLatencySamples_roundtrip [of 0 fresh_node]
      setLatencySamples_roundtrip [of 256 fresh_node]
    by blast
qed

end
